theory Spec2Isabelle
  imports Complex_Main
begin

section \<open>JavaScript numbers\<close>

text \<open>
  The TypeScript type \<open>number\<close> is an IEEE binary64 double: a NaN, one of the two
  infinities, or a finite value. A finite value is modelled by the real number it denotes.
  Comparisons of doubles are exact, so \<open>>=\<close>, \<open><=\<close> and \<open><\<close> below agree with the program
  on every double. Arithmetic rounds every result to binary64 (round to nearest, ties to
  even, with subnormals and overflow to an infinity). The sign of zero is not modelled:
  the two zeros compare equal, and no operation of the program tells them apart.
\<close>

datatype number = NaN | NegInfinity | Fin real | PosInfinity

text \<open>
  The abstract relational comparison \<open>x < y\<close> of ECMAScript: \<open>None\<close> is the result
  \<open>undefined\<close>, which a NaN operand gives.
\<close>

fun num_less :: "number \<Rightarrow> number \<Rightarrow> bool option" where
  "num_less NaN y = None"
| "num_less x NaN = None"
| "num_less PosInfinity y = Some False"
| "num_less x NegInfinity = Some False"
| "num_less NegInfinity y = Some True"
| "num_less x PosInfinity = Some True"
| "num_less (Fin x) (Fin y) = Some (x < y)"

text \<open>\<open>x >= y\<close>: false when \<open>x < y\<close> is true or undefined.\<close>

definition num_ge :: "number \<Rightarrow> number \<Rightarrow> bool" where
  "num_ge x y = (case num_less x y of None \<Rightarrow> False | Some r \<Rightarrow> \<not> r)"

text \<open>\<open>x < y\<close>: true only when the comparison is true.\<close>

definition num_lt :: "number \<Rightarrow> number \<Rightarrow> bool" where
  "num_lt x y = (case num_less x y of None \<Rightarrow> False | Some r \<Rightarrow> r)"

text \<open>\<open>x <= y\<close>: false when \<open>y < x\<close> is true or undefined.\<close>

definition num_le :: "number \<Rightarrow> number \<Rightarrow> bool" where
  "num_le x y = (case num_less y x of None \<Rightarrow> False | Some r \<Rightarrow> \<not> r)"

section \<open>Risk levels (types/index.ts)\<close>

text \<open>\<open>export type RiskLevel = 'minimal' | 'low' | 'moderate' | 'high' | 'critical'\<close>\<close>

datatype RiskLevel = Minimal | Low | Moderate | High | Critical

text \<open>The string each level is at run time.\<close>

fun level_name :: "RiskLevel \<Rightarrow> string" where
  "level_name Minimal = ''minimal''"
| "level_name Low = ''low''"
| "level_name Moderate = ''moderate''"
| "level_name High = ''high''"
| "level_name Critical = ''critical''"

text \<open>Severity, ascending: minimal < low < moderate < high < critical.\<close>

fun level_rank :: "RiskLevel \<Rightarrow> nat" where
  "level_rank Minimal = 0"
| "level_rank Low = 1"
| "level_rank Moderate = 2"
| "level_rank High = 3"
| "level_rank Critical = 4"

section \<open>Score to level (utils/risk.ts)\<close>

text \<open>
  \<^verbatim>\<open>
  export function getRiskLevelFromScore(score: number): RiskLevel {
    if (score >= 80) return 'critical';
    if (score >= 60) return 'high';
    if (score >= 40) return 'moderate';
    if (score >= 20) return 'low';
    return 'minimal';
  }
  \<close>
\<close>

definition getRiskLevelFromScore :: "number \<Rightarrow> RiskLevel" where
  "getRiskLevelFromScore score =
     (if num_ge score (Fin 80) then Critical
      else if num_ge score (Fin 60) then High
      else if num_ge score (Fin 40) then Moderate
      else if num_ge score (Fin 20) then Low
      else Minimal)"

text \<open>
  The index breakdown of the region detail page computes the level of each sub-index
  inline:
  \<^verbatim>\<open>
  const level = item.value >= 80 ? 'critical' :
                item.value >= 60 ? 'high' :
                item.value >= 40 ? 'moderate' :
                item.value >= 20 ? 'low' : 'minimal';
  \<close>
\<close>

definition indexBreakdown_level :: "number \<Rightarrow> RiskLevel" where
  "indexBreakdown_level item_value =
     (if num_ge item_value (Fin 80) then Critical
      else (if num_ge item_value (Fin 60) then High
      else (if num_ge item_value (Fin 40) then Moderate
      else (if num_ge item_value (Fin 20) then Low else Minimal))))"

text \<open>
  The bands as the specification words them, on the interval from 0 to 100: each band
  includes its lower bound and excludes the next band's.
\<close>

fun spec_band :: "RiskLevel \<Rightarrow> real set" where
  "spec_band Minimal = {0 ..< 20}"
| "spec_band Low = {20 ..< 40}"
| "spec_band Moderate = {40 ..< 60}"
| "spec_band High = {60 ..< 80}"
| "spec_band Critical = {80 .. 100}"

section \<open>Rounding to binary64\<close>

text \<open>
  Every arithmetic operation on doubles returns the exact result rounded to the nearest
  double, ties to the double with an even significand. A finite double is an integer
  multiple \<open>m * 2^e\<close> with \<open>|m| < 2^53\<close> and \<open>-1074 <= e <= 971\<close>. Around a real \<open>x\<close>
  the doubles are the multiples of \<open>2^e\<close> for \<open>e = floor (log2 |x|) - 52\<close>, and of
  \<open>2^-1074\<close> in the subnormal range; \<open>ulp_exponent x\<close> is this \<open>e\<close>.
\<close>

definition ulp_exponent :: "real \<Rightarrow> int" where
  "ulp_exponent x = max (\<lfloor>log 2 \<bar>x\<bar>\<rfloor> - 52) (- 1074)"

text \<open>The nearest integer, a tie going to the even one.\<close>

definition round_half_even :: "real \<Rightarrow> int" where
  "round_half_even q =
     (let f = \<lfloor>q\<rfloor>; d = q - of_int f
      in if d < 1 / 2 then f else if 1 / 2 < d then f + 1 else if even f then f else f + 1)"

definition round_binary64 :: "real \<Rightarrow> real" where
  "round_binary64 x =
     (if x = 0 then 0
      else of_int (round_half_even (x / 2 powr of_int (ulp_exponent x)))
           * 2 powr of_int (ulp_exponent x))"

text \<open>
  The result of an operation whose exact value is \<open>x\<close>: the rounded value, or an
  infinity when the rounded value is beyond the largest double (it reaches \<open>2^1024\<close>).
\<close>

definition to_number :: "real \<Rightarrow> number" where
  "to_number x =
     (let r = round_binary64 x
      in if 2 ^ 1024 \<le> r then PosInfinity
         else if r \<le> - (2 ^ 1024) then NegInfinity
         else Fin r)"

section \<open>Arithmetic on numbers\<close>

text \<open>
  Addition, multiplication and division with the special values of IEEE arithmetic: a NaN
  operand gives NaN, as do \<open>Infinity - Infinity\<close>, \<open>Infinity * 0\<close>, \<open>Infinity / Infinity\<close>
  and \<open>0 / 0\<close>. On finite operands the exact result is rounded to binary64. A zero
  divisor is taken as the positive zero; the program divides by the constant 100 only.
\<close>

fun num_add :: "number \<Rightarrow> number \<Rightarrow> number" where
  "num_add NaN y = NaN"
| "num_add x NaN = NaN"
| "num_add PosInfinity NegInfinity = NaN"
| "num_add NegInfinity PosInfinity = NaN"
| "num_add PosInfinity y = PosInfinity"
| "num_add x PosInfinity = PosInfinity"
| "num_add NegInfinity y = NegInfinity"
| "num_add x NegInfinity = NegInfinity"
| "num_add (Fin x) (Fin y) = to_number (x + y)"

fun num_mul :: "number \<Rightarrow> number \<Rightarrow> number" where
  "num_mul NaN y = NaN"
| "num_mul x NaN = NaN"
| "num_mul PosInfinity PosInfinity = PosInfinity"
| "num_mul PosInfinity NegInfinity = NegInfinity"
| "num_mul NegInfinity PosInfinity = NegInfinity"
| "num_mul NegInfinity NegInfinity = PosInfinity"
| "num_mul PosInfinity (Fin y) =
     (if y = 0 then NaN else if 0 < y then PosInfinity else NegInfinity)"
| "num_mul NegInfinity (Fin y) =
     (if y = 0 then NaN else if 0 < y then NegInfinity else PosInfinity)"
| "num_mul (Fin x) PosInfinity =
     (if x = 0 then NaN else if 0 < x then PosInfinity else NegInfinity)"
| "num_mul (Fin x) NegInfinity =
     (if x = 0 then NaN else if 0 < x then NegInfinity else PosInfinity)"
| "num_mul (Fin x) (Fin y) = to_number (x * y)"

fun num_div :: "number \<Rightarrow> number \<Rightarrow> number" where
  "num_div NaN y = NaN"
| "num_div x NaN = NaN"
| "num_div PosInfinity (Fin y) = (if 0 \<le> y then PosInfinity else NegInfinity)"
| "num_div NegInfinity (Fin y) = (if 0 \<le> y then NegInfinity else PosInfinity)"
| "num_div (Fin x) (Fin y) =
     (if y = 0 then (if x = 0 then NaN else if 0 < x then PosInfinity else NegInfinity)
      else to_number (x / y))"
| "num_div (Fin x) PosInfinity = Fin 0"
| "num_div (Fin x) NegInfinity = Fin 0"
| "num_div PosInfinity PosInfinity = NaN"
| "num_div PosInfinity NegInfinity = NaN"
| "num_div NegInfinity PosInfinity = NaN"
| "num_div NegInfinity NegInfinity = NaN"

section \<open>Marker size (utils/risk.ts)\<close>

text \<open>
  \<^verbatim>\<open>
  export function getMarkerSize(riskScore: number): number {
    // Scale marker size based on risk score (8-24 pixels)
    return 8 + (riskScore / 100) * 16;
  }
  \<close>
\<close>

definition getMarkerSize :: "number \<Rightarrow> number" where
  "getMarkerSize riskScore = num_add (Fin 8) (num_mul (num_div riskScore (Fin 100)) (Fin 16))"

section \<open>Property reads on object literals\<close>

text \<open>
  The colour tables are object literals indexed with a key that arrives at run time.
  A read \<open>obj[key]\<close> returns the object's own property of that name; when there is none
  it returns the property of that name which every object literal inherits from
  \<open>Object.prototype\<close>, and \<open>undefined\<close> when there is none either. The inherited
  properties are built-in functions (and, for \<open>__proto__\<close>, the prototype object);
  \<open>Inherited k\<close> stands for the one named \<open>k\<close>.
\<close>

datatype js_value = Undefined | Str string | Inherited string

definition object_prototype_keys :: "string list" where
  "object_prototype_keys =
     [''constructor'', ''hasOwnProperty'', ''isPrototypeOf'', ''propertyIsEnumerable'',
      ''toLocaleString'', ''toString'', ''valueOf'', ''__proto__'',
      ''__defineGetter__'', ''__defineSetter__'', ''__lookupGetter__'', ''__lookupSetter__'']"

definition get_property :: "(string \<times> string) list \<Rightarrow> string \<Rightarrow> js_value" where
  "get_property obj key =
     (case map_of obj key of
        Some v \<Rightarrow> Str v
      | None \<Rightarrow> if key \<in> set object_prototype_keys then Inherited key else Undefined)"

text \<open>
  Truthiness: \<open>undefined\<close> and the empty string are falsy, every other string and every
  function or object is truthy. \<open>a || b\<close> is \<open>a\<close> when \<open>a\<close> is truthy, else \<open>b\<close>.
\<close>

fun truthy :: "js_value \<Rightarrow> bool" where
  "truthy Undefined = False"
| "truthy (Str s) = (s \<noteq> [])"
| "truthy (Inherited k) = True"

definition logical_or :: "js_value \<Rightarrow> js_value \<Rightarrow> js_value" where
  "logical_or a b = (if truthy a then a else b)"

text \<open>
  The argument a colour function receives at run time, where the declared type is erased:
  a string, or \<open>undefined\<close> or \<open>null\<close> for an absent field. Used as a property key,
  \<open>undefined\<close> and \<open>null\<close> are converted to the strings of these names.
\<close>

datatype key_arg = ArgUndefined | ArgNull | ArgStr string

fun to_property_key :: "key_arg \<Rightarrow> string" where
  "to_property_key ArgUndefined = ''undefined''"
| "to_property_key ArgNull = ''null''"
| "to_property_key (ArgStr s) = s"

section \<open>Colour tables (utils/risk.ts)\<close>

text \<open>
  \<^verbatim>\<open>
  export const RISK_COLORS: Record<RiskLevel, string> = {
    minimal: '#10B981', low: '#84CC16', moderate: '#F59E0B',
    high: '#F97316', critical: '#EF4444',
  };
  export const DISEASE_COLORS: Record<string, string> = {
    malaria: '#8B5CF6', cholera: '#06B6D4', measles: '#EC4899', dengue: '#F97316',
    respiratory: '#6366F1', typhoid: '#14B8A6', ebola: '#DC2626', covid: '#64748B',
  };
  \<close>
\<close>

definition RISK_COLORS :: "(string \<times> string) list" where
  "RISK_COLORS =
     [(''minimal'', ''#10B981''),
      (''low'', ''#84CC16''),
      (''moderate'', ''#F59E0B''),
      (''high'', ''#F97316''),
      (''critical'', ''#EF4444'')]"

definition DISEASE_COLORS :: "(string \<times> string) list" where
  "DISEASE_COLORS =
     [(''malaria'', ''#8B5CF6''),
      (''cholera'', ''#06B6D4''),
      (''measles'', ''#EC4899''),
      (''dengue'', ''#F97316''),
      (''respiratory'', ''#6366F1''),
      (''typhoid'', ''#14B8A6''),
      (''ebola'', ''#DC2626''),
      (''covid'', ''#64748B'')]"

text \<open>
  \<^verbatim>\<open>
  export function getRiskColor(level: RiskLevel): string {
    return RISK_COLORS[level] || RISK_COLORS.minimal;
  }
  export function getDiseaseColor(disease: string): string {
    return DISEASE_COLORS[disease] || '#64748B';
  }
  \<close>
\<close>

definition getRiskColor :: "key_arg \<Rightarrow> js_value" where
  "getRiskColor level =
     logical_or (get_property RISK_COLORS (to_property_key level))
       (get_property RISK_COLORS ''minimal'')"

definition getDiseaseColor :: "string \<Rightarrow> js_value" where
  "getDiseaseColor disease =
     logical_or (get_property DISEASE_COLORS disease) (Str ''#64748B'')"

section \<open>Query keys and query options (hooks)\<close>

text \<open>
  A query key is an array whose parts are strings, numbers, \<open>undefined\<close> (an optional
  argument that was not given) or a parameter object.
\<close>

datatype key_part = KUndefined | KStr string | KNum number | KObject "(string \<times> key_part) list"

type_synonym query_key = "key_part list"

fun opt_str :: "string option \<Rightarrow> key_part" where
  "opt_str None = KUndefined"
| "opt_str (Some s) = KStr s"

fun opt_num :: "number option \<Rightarrow> key_part" where
  "opt_num None = KUndefined"
| "opt_num (Some n) = KNum n"

text \<open>
  The options object a hook passes to \<open>useQuery\<close>: the key, the polling interval in
  milliseconds when the hook gives one, and the \<open>enabled\<close> flag when the hook gives one.
\<close>

record query_options =
  queryKey :: query_key
  refetchInterval :: "nat option"
  enabled :: "bool option"

text \<open>\<open>!!x\<close> on a string is true unless it is empty; on a number, unless it is 0 or NaN.\<close>

definition truthy_str :: "string \<Rightarrow> bool" where
  "truthy_str x = (x \<noteq> [])"

definition truthy_num :: "number \<Rightarrow> bool" where
  "truthy_num x = (x \<noteq> Fin 0 \<and> x \<noteq> NaN)"

text \<open>A query without the \<open>enabled\<close> option is enabled.\<close>

definition is_enabled :: "query_options \<Rightarrow> bool" where
  "is_enabled opts = (case enabled opts of None \<Rightarrow> True | Some b \<Rightarrow> b)"

text \<open>
  hooks/useAlerts.ts:
  \<^verbatim>\<open>
  useAlerts(params?):            queryKey: ['alerts', params], refetchInterval: 60 * 1000
  useActiveAlerts(severity?, limit?):
                                 queryKey: ['alerts', 'active', severity, limit],
                                 refetchInterval: 60 * 1000
  useAlert(id: number):          queryKey: ['alerts', id], enabled: !!id
  \<close>
\<close>

definition useAlerts :: "key_part \<Rightarrow> query_options" where
  "useAlerts params =
     \<lparr>queryKey = [KStr ''alerts'', params],
      refetchInterval = Some (60 * 1000),
      enabled = None\<rparr>"

definition useActiveAlerts :: "string option \<Rightarrow> number option \<Rightarrow> query_options" where
  "useActiveAlerts severity limit =
     \<lparr>queryKey = [KStr ''alerts'', KStr ''active'', opt_str severity, opt_num limit],
      refetchInterval = Some (60 * 1000),
      enabled = None\<rparr>"

definition useAlert :: "number \<Rightarrow> query_options" where
  "useAlert alert_id =
     \<lparr>queryKey = [KStr ''alerts'', KNum alert_id],
      refetchInterval = None,
      enabled = Some (truthy_num alert_id)\<rparr>"

text \<open>
  hooks/useRisks.ts:
  \<^verbatim>\<open>
  useRiskSummary(continent?, level?):
      queryKey: ['risks', 'summary', continent, level], refetchInterval: 5 * 60 * 1000
  useRiskMap(level?):
      queryKey: ['risks', 'map', level], refetchInterval: 5 * 60 * 1000
  useRegionRisks(regionCode: string):
      queryKey: ['risks', 'region', regionCode], enabled: !!regionCode
  useDiseaseRisks(diseaseType: string, riskLevel?, limit?):
      queryKey: ['risks', 'disease', diseaseType, riskLevel, limit], enabled: !!diseaseType
  \<close>
\<close>

definition useRiskSummary :: "string option \<Rightarrow> string option \<Rightarrow> query_options" where
  "useRiskSummary continent level =
     \<lparr>queryKey = [KStr ''risks'', KStr ''summary'', opt_str continent, opt_str level],
      refetchInterval = Some (5 * 60 * 1000),
      enabled = None\<rparr>"

definition useRiskMap :: "string option \<Rightarrow> query_options" where
  "useRiskMap level =
     \<lparr>queryKey = [KStr ''risks'', KStr ''map'', opt_str level],
      refetchInterval = Some (5 * 60 * 1000),
      enabled = None\<rparr>"

definition useRegionRisks :: "string \<Rightarrow> query_options" where
  "useRegionRisks regionCode =
     \<lparr>queryKey = [KStr ''risks'', KStr ''region'', KStr regionCode],
      refetchInterval = None,
      enabled = Some (truthy_str regionCode)\<rparr>"

definition useDiseaseRisks :: "string \<Rightarrow> string option \<Rightarrow> number option \<Rightarrow> query_options" where
  "useDiseaseRisks diseaseType riskLevel limit =
     \<lparr>queryKey = [KStr ''risks'', KStr ''disease'', KStr diseaseType, opt_str riskLevel,
        opt_num limit],
      refetchInterval = None,
      enabled = Some (truthy_str diseaseType)\<rparr>"

text \<open>
  hooks/useRegions.ts:
  \<^verbatim>\<open>
  useRegions(params?):           queryKey: ['regions', params]
  useRegion(code: string):       queryKey: ['regions', code], enabled: !!code
  useRegionChildren(code: string):
                                 queryKey: ['regions', code, 'children'], enabled: !!code
  \<close>
\<close>

definition useRegions :: "key_part \<Rightarrow> query_options" where
  "useRegions params =
     \<lparr>queryKey = [KStr ''regions'', params],
      refetchInterval = None,
      enabled = None\<rparr>"

definition useRegion :: "string \<Rightarrow> query_options" where
  "useRegion code =
     \<lparr>queryKey = [KStr ''regions'', KStr code],
      refetchInterval = None,
      enabled = Some (truthy_str code)\<rparr>"

definition useRegionChildren :: "string \<Rightarrow> query_options" where
  "useRegionChildren code =
     \<lparr>queryKey = [KStr ''regions'', KStr code, KStr ''children''],
      refetchInterval = None,
      enabled = Some (truthy_str code)\<rparr>"

section \<open>The query cache and the alert mutations (hooks/useAlerts.ts)\<close>

text \<open>
  The hooks call the query client of a library (\<open>useQuery\<close>, \<open>useQueryClient\<close>,
  \<open>useMutation\<close>) whose code is not among the sources. The cache, its invalidation,
  a read and the mutation runner are therefore modelled from the specification of the data
  synchronization layer; the hooks themselves are modelled from their source.
\<close>

text \<open>
  Modelled from the spec: a cache entry of the query client, which is not among the
  sources. An entry holds a cached value and a mark that it is stale; the cache maps a
  cache key to its entry, if it has one.
\<close>

record 'v cache_entry =
  cached :: 'v
  isInvalidated :: bool

type_synonym 'v query_cache = "query_key \<Rightarrow> 'v cache_entry option"

text \<open>
  Modelled from the spec: the key matching of the query client's \<open>invalidateQueries\<close>,
  which is not among the sources. A key lies under a filter key when the parts of the
  filter are the first parts of the key.
\<close>

fun partialMatchKey :: "query_key \<Rightarrow> query_key \<Rightarrow> bool" where
  "partialMatchKey key [] = True"
| "partialMatchKey [] (f # fs) = False"
| "partialMatchKey (k # ks) (f # fs) = (k = f \<and> partialMatchKey ks fs)"

text \<open>
  Modelled from the spec: \<open>queryClient.invalidateQueries({ queryKey })\<close> of the query
  client, which is not among the sources. Invalidation marks every entry whose key lies
  under the filter key as stale; it creates no entry, removes none and changes no cached
  value.
\<close>

definition invalidateQueries :: "query_key \<Rightarrow> 'v query_cache \<Rightarrow> 'v query_cache" where
  "invalidateQueries filterKey cache =
     (\<lambda>key. case cache key of
        None \<Rightarrow> None
      | Some e \<Rightarrow> Some (if partialMatchKey key filterKey then e\<lparr>isInvalidated := True\<rparr> else e))"

text \<open>
  Modelled from the spec: a read of a cache key by the query client, which is not among
  the sources. The read triggers a fetch when the key has no entry or its entry is stale,
  and returns the cached value otherwise.
\<close>

datatype 'v read_result = Fetch | Cached 'v

definition read_query :: "'v query_cache \<Rightarrow> query_key \<Rightarrow> 'v read_result" where
  "read_query cache key =
     (case cache key of
        None \<Rightarrow> Fetch
      | Some e \<Rightarrow> if isInvalidated e then Fetch else Cached (cached e))"

text \<open>
  Modelled from the spec: the mutation runner of the query client (\<open>useMutation\<close>),
  which is not among the sources. A mutation issues its request, which is resolved with the
  updated alert or rejected with an error. After a resolved request the runner calls
  \<open>onSuccess\<close>, after a rejected one \<open>onError\<close>, and after either \<open>onSettled\<close>, each
  only when the hook has given that callback. The callbacks of the hooks act on the shared
  cache.
\<close>

datatype 'a settled = Resolved 'a | Rejected string

record 'v mutation_options =
  onSuccess :: "('v query_cache \<Rightarrow> 'v query_cache) option"
  onError :: "('v query_cache \<Rightarrow> 'v query_cache) option"
  onSettled :: "('v query_cache \<Rightarrow> 'v query_cache) option"

definition run_callback :: "('s \<Rightarrow> 's) option \<Rightarrow> 's \<Rightarrow> 's" where
  "run_callback cb s = (case cb of None \<Rightarrow> s | Some f \<Rightarrow> f s)"

definition mutate :: "'v mutation_options \<Rightarrow> 'a settled \<Rightarrow> 'v query_cache \<Rightarrow> 'v query_cache" where
  "mutate opts outcome cache =
     (case outcome of
        Resolved x \<Rightarrow> run_callback (onSettled opts) (run_callback (onSuccess opts) cache)
      | Rejected err \<Rightarrow> run_callback (onSettled opts) (run_callback (onError opts) cache))"

text \<open>
  The two mutation hooks give \<open>mutationFn\<close> (the request to the server, whose outcome
  is the \<open>settled\<close> argument of \<open>mutate\<close>) and \<open>onSuccess\<close>, and no other callback:
  \<^verbatim>\<open>
  export function useAcknowledgeAlert() {
    const queryClient = useQueryClient();
    return useMutation({
      mutationFn: ({ id, notes }) => alertsApi.acknowledge(id, notes),
      onSuccess: () => {
        queryClient.invalidateQueries({ queryKey: ['alerts'] });
      },
    });
  }
  export function useResolveAlert() {
    const queryClient = useQueryClient();
    return useMutation({
      mutationFn: ({ id, resolution_notes, was_false_positive }) =>
        alertsApi.resolve(id, { resolution_notes, was_false_positive }),
      onSuccess: () => {
        queryClient.invalidateQueries({ queryKey: ['alerts'] });
      },
    });
  }
  \<close>
\<close>

definition useAcknowledgeAlert :: "'v mutation_options" where
  "useAcknowledgeAlert =
     \<lparr>onSuccess = Some (invalidateQueries [KStr ''alerts'']),
      onError = None,
      onSettled = None\<rparr>"

definition useResolveAlert :: "'v mutation_options" where
  "useResolveAlert =
     \<lparr>onSuccess = Some (invalidateQueries [KStr ''alerts'']),
      onError = None,
      onSettled = None\<rparr>"

text \<open>
  The alerts family as the specification words it: every key under the \<open>alerts\<close>
  namespace, whatever follows the namespace.
\<close>

fun in_alerts_family :: "query_key \<Rightarrow> bool" where
  "in_alerts_family (KStr namespace # rest) = (namespace = ''alerts'')"
| "in_alerts_family key = False"

section \<open>Comparisons with a finite bound\<close>

lemma num_ge_Fin [simp]:
  "num_ge (Fin x) (Fin y) = (y \<le> x)"
  "num_ge NaN n = False"
  "num_ge PosInfinity (Fin y) = True"
  "num_ge NegInfinity (Fin y) = False"
  by (auto simp: num_ge_def)

lemma num_lt_Fin [simp]:
  "num_lt (Fin x) (Fin y) = (x < y)"
  "num_lt NaN n = False"
  "num_lt PosInfinity (Fin y) = False"
  "num_lt NegInfinity (Fin y) = True"
  by (auto simp: num_lt_def)

lemma num_le_cases:
  "num_le x y =
     (case (x, y) of
        (NaN, _) \<Rightarrow> False
      | (_, NaN) \<Rightarrow> False
      | (NegInfinity, _) \<Rightarrow> True
      | (_, PosInfinity) \<Rightarrow> True
      | (Fin a, Fin b) \<Rightarrow> a \<le> b
      | _ \<Rightarrow> False)"
  by (cases x; cases y) (auto simp: num_le_def)

lemma num_ge_mono:
  assumes "num_le x y" and "num_ge x (Fin b)"
  shows "num_ge y (Fin b)"
  using assms by (cases x; cases y) (auto simp: num_le_cases)

section \<open>Properties of the score to level mapping\<close>

text \<open>
  C1. For every number, \<open>getRiskLevelFromScore\<close> returns critical exactly when the score
  is at least 80, high exactly when it is at least 60 and below 80, moderate exactly when
  at least 40 and below 60, low exactly when at least 20 and below 40, and minimal in every
  other case (a NaN included). On the interval from 0 to 100 the level returned is the one
  band of the specification that holds the score, so the bands cover the interval with no
  gap and no overlap. Input outside the interval is not rejected: every score of at least
  80, also beyond 100 and the positive infinity, is critical, and every score below 0,
  also the negative infinity, is minimal.
\<close>

theorem getRiskLevelFromScore_bands:
  "((getRiskLevelFromScore s = Critical) = num_ge s (Fin 80))
   \<and> ((getRiskLevelFromScore s = High) = (num_ge s (Fin 60) \<and> num_lt s (Fin 80)))
   \<and> ((getRiskLevelFromScore s = Moderate) = (num_ge s (Fin 40) \<and> num_lt s (Fin 60)))
   \<and> ((getRiskLevelFromScore s = Low) = (num_ge s (Fin 20) \<and> num_lt s (Fin 40)))
   \<and> ((getRiskLevelFromScore s = Minimal) = (\<not> num_ge s (Fin 20)))
   \<and> (0 \<le> x \<and> x \<le> 100 \<longrightarrow>
        (\<forall>l. (getRiskLevelFromScore (Fin x) = l) = (x \<in> spec_band l))
        \<and> (\<exists>!l. x \<in> spec_band l))
   \<and> (num_lt s (Fin 0) \<longrightarrow> getRiskLevelFromScore s = Minimal)
   \<and> getRiskLevelFromScore PosInfinity = Critical
   \<and> getRiskLevelFromScore NegInfinity = Minimal
   \<and> getRiskLevelFromScore NaN = Minimal"
proof -
  have bands: "(getRiskLevelFromScore (Fin x) = l) = (x \<in> spec_band l)"
    if "0 \<le> x" "x \<le> 100" for l
    using that by (cases l) (auto simp: getRiskLevelFromScore_def)
  have uniq: "\<exists>!l. x \<in> spec_band l" if "0 \<le> x" "x \<le> 100"
  proof -
    have "\<exists>!l. getRiskLevelFromScore (Fin x) = l" by simp
    then show ?thesis using bands [OF that] by simp
  qed
  have chain: "(getRiskLevelFromScore s = Critical) = num_ge s (Fin 80)"
    "(getRiskLevelFromScore s = High) = (num_ge s (Fin 60) \<and> num_lt s (Fin 80))"
    "(getRiskLevelFromScore s = Moderate) = (num_ge s (Fin 40) \<and> num_lt s (Fin 60))"
    "(getRiskLevelFromScore s = Low) = (num_ge s (Fin 20) \<and> num_lt s (Fin 40))"
    "(getRiskLevelFromScore s = Minimal) = (\<not> num_ge s (Fin 20))"
    by (cases s; auto simp: getRiskLevelFromScore_def)+
  have below: "getRiskLevelFromScore s = Minimal" if "num_lt s (Fin 0)"
    using that by (cases s) (auto simp: getRiskLevelFromScore_def)
  have ends: "getRiskLevelFromScore PosInfinity = Critical"
    "getRiskLevelFromScore NegInfinity = Minimal"
    "getRiskLevelFromScore NaN = Minimal"
    by (simp_all add: getRiskLevelFromScore_def)
  show ?thesis
    using chain bands uniq below ends by blast
qed

theorem getRiskLevelFromScore_bands_witness:
  "(0::real) \<le> 79.9 \<and> (79.9::real) \<le> 100 \<and> num_lt (Fin (-5)) (Fin 0)
   \<and> (79.9::real) \<in> spec_band High
   \<and> getRiskLevelFromScore (Fin 79.9) = High
   \<and> getRiskLevelFromScore (Fin (-5)) = Minimal
   \<and> getRiskLevelFromScore (Fin 250) = Critical"
  using getRiskLevelFromScore_bands [of "Fin (-5)" "79.9"]
    getRiskLevelFromScore_bands [of "Fin 250" "79.9"]
  by simp

text \<open>
  C3. For every score the result is one of the five levels, and the level does not
  decrease in severity when the score increases: \<open>s1 <= s2\<close> gives a level of \<open>s1\<close>
  that is at most the level of \<open>s2\<close> in the order minimal, low, moderate, high,
  critical. The score 80 is critical, 79.9 is high and 0 is minimal.
\<close>

theorem getRiskLevelFromScore_monotone:
  "getRiskLevelFromScore s \<in> {Minimal, Low, Moderate, High, Critical}
   \<and> (num_le s1 s2 \<longrightarrow>
        level_rank (getRiskLevelFromScore s1) \<le> level_rank (getRiskLevelFromScore s2))
   \<and> getRiskLevelFromScore (Fin 80) = Critical
   \<and> getRiskLevelFromScore (Fin 79.9) = High
   \<and> getRiskLevelFromScore (Fin 0) = Minimal"
proof -
  have five: "getRiskLevelFromScore s \<in> {Minimal, Low, Moderate, High, Critical}"
    by (cases "getRiskLevelFromScore s") simp_all
  have mono: "level_rank (getRiskLevelFromScore s1) \<le> level_rank (getRiskLevelFromScore s2)"
    if le: "num_le s1 s2"
  proof -
    have up: "num_ge s2 (Fin b)" if "num_ge s1 (Fin b)" for b
      using num_ge_mono [OF le that] .
    show ?thesis
      unfolding getRiskLevelFromScore_def using up by auto
  qed
  have points: "getRiskLevelFromScore (Fin 80) = Critical"
    "getRiskLevelFromScore (Fin 79.9) = High"
    "getRiskLevelFromScore (Fin 0) = Minimal"
    by (simp_all add: getRiskLevelFromScore_def)
  show ?thesis
    using five mono points by blast
qed

theorem getRiskLevelFromScore_monotone_witness:
  "num_le (Fin 35) (Fin 61.5)
   \<and> getRiskLevelFromScore (Fin 35) = Low
   \<and> getRiskLevelFromScore (Fin 61.5) = High
   \<and> level_rank (getRiskLevelFromScore (Fin 35)) \<le> level_rank (getRiskLevelFromScore (Fin 61.5))"
proof -
  have le: "num_le (Fin 35) (Fin 61.5)"
    by (simp add: num_le_cases)
  have vals: "getRiskLevelFromScore (Fin 35) = Low" "getRiskLevelFromScore (Fin 61.5) = High"
    by (simp_all add: getRiskLevelFromScore_def)
  from getRiskLevelFromScore_monotone [of "Fin 35" "Fin 35" "Fin 61.5"] le
  have "level_rank (getRiskLevelFromScore (Fin 35)) \<le> level_rank (getRiskLevelFromScore (Fin 61.5))"
    by blast
  with le vals show ?thesis by blast
qed

text \<open>
  C9. The conditional chain written inline in the index breakdown of the region detail
  page returns, for every number, the level that \<open>getRiskLevelFromScore\<close> returns.
\<close>

theorem indexBreakdown_level_eq:
  "indexBreakdown_level v = getRiskLevelFromScore v"
  by (simp add: indexBreakdown_level_def getRiskLevelFromScore_def)

section \<open>Rounding to the nearest integer\<close>



lemma round_half_even_of_int [simp]: "round_half_even (of_int n) = n"
  by (simp add: round_half_even_def)






lemma ulp_exponent_minus [simp]: "ulp_exponent (- x) = ulp_exponent x"
  by (simp add: ulp_exponent_def)




lemma powr_int_split:
  assumes "e \<le> j"
  shows "(2::real) powr of_int j = of_int (2 ^ nat (j - e)) * 2 powr of_int e"
proof -
  have "of_int j = real (nat (j - e)) + of_int e"
    using assms by simp
  then have "(2::real) powr of_int j = 2 powr real (nat (j - e)) * 2 powr of_int e"
    by (simp only: powr_add)
  then show ?thesis
    by (simp add: powr_realpow)
qed











section \<open>Rounding to binary64: doubles are fixed, order is kept\<close>

lemma round_binary64_representable:
  assumes "\<bar>m\<bar> < 2 ^ 53" and "- 1074 \<le> e"
  shows "round_binary64 (of_int m * 2 powr of_int e) = of_int m * 2 powr of_int e"
proof (cases "m = 0")
  case True
  then show ?thesis by (simp add: round_binary64_def)
next
  case False
  define x :: real where "x = of_int m * 2 powr of_int e"
  define u where "u = ulp_exponent x"
  define p :: real where "p = 2 powr of_int u"
  have x0: "x \<noteq> 0" using False by (simp add: x_def)
  have p0: "0 < p" by (simp add: p_def)
  have absx: "\<bar>x\<bar> = of_int \<bar>m\<bar> * 2 powr of_int e"
    by (simp add: x_def abs_mult)
  have "of_int \<bar>m\<bar> < (2::real) ^ 53"
    using assms(1) by (metis of_int_less_numeral_power_cancel_iff)
  then have "\<bar>x\<bar> < 2 ^ 53 * 2 powr of_int e"
    unfolding absx by (simp add: mult_strict_right_mono)
  also have "\<dots> = 2 powr (of_int e + 53)"
    by (simp add: powr_add)
  finally have "log 2 \<bar>x\<bar> < of_int e + 53"
    using x0 by (simp add: log_less_iff)
  then have "\<lfloor>log 2 \<bar>x\<bar>\<rfloor> < e + 53"
    by (simp add: floor_less_iff)
  then have ue: "u \<le> e"
    using assms(2) by (simp add: u_def ulp_exponent_def)
  have split: "2 powr of_int e = of_int (2 ^ nat (e - u)) * p"
    unfolding p_def by (rule powr_int_split [OF ue])
  have xp: "x = of_int (m * 2 ^ nat (e - u)) * p"
    unfolding x_def split by simp
  then have "x / p = of_int (m * 2 ^ nat (e - u))"
    using p0 by simp
  then have "round_half_even (x / p) = m * 2 ^ nat (e - u)"
    by (simp only: round_half_even_of_int)
  moreover have "round_binary64 x = of_int (round_half_even (x / p)) * p"
    using x0 by (simp add: round_binary64_def p_def u_def)
  ultimately have "round_binary64 x = x"
    using xp by simp
  then show ?thesis
    by (simp add: x_def)
qed

lemma round_binary64_int:
  assumes "\<bar>m\<bar> < 2 ^ 53"
  shows "round_binary64 (of_int m) = of_int m"
  using round_binary64_representable [of m 0] assms by simp

lemma round_binary64_small_numerals [simp]:
  "round_binary64 0 = 0" "round_binary64 1 = 1" "round_binary64 2 = 2"
  "round_binary64 8 = 8" "round_binary64 16 = 16" "round_binary64 24 = 24"
  "round_binary64 32 = 32" "round_binary64 40 = 40"
  "round_binary64 (- 1) = - 1" "round_binary64 (- 16) = - 16" "round_binary64 (- 8) = - 8"
  using round_binary64_int [of 0] round_binary64_int [of 1] round_binary64_int [of 2]
    round_binary64_int [of 8] round_binary64_int [of 16] round_binary64_int [of 24]
    round_binary64_int [of 32] round_binary64_int [of 40]
    round_binary64_int [of "- 1"] round_binary64_int [of "- 16"] round_binary64_int [of "- 8"]
  by simp_all





lemma to_number_not_NaN [simp]: "to_number x \<noteq> NaN"
  by (simp add: to_number_def Let_def)

lemma num_le_to_number [simp]:
  "num_le NegInfinity (to_number x)" "num_le (to_number x) PosInfinity"
  by (simp_all add: to_number_def Let_def num_le_cases)

lemma getMarkerSize_special:
  "getMarkerSize NaN = NaN"
  "getMarkerSize PosInfinity = PosInfinity"
  "getMarkerSize NegInfinity = NegInfinity"
  by (simp_all add: getMarkerSize_def)

lemma num_le_infinities [simp]:
  "num_le NegInfinity NegInfinity" "num_le NegInfinity PosInfinity"
  "num_le PosInfinity PosInfinity" "num_le NegInfinity (Fin x)" "num_le (Fin x) PosInfinity"
  by (simp_all add: num_le_cases)























section \<open>Values of the marker size at some scores\<close>










section \<open>Properties of the marker size\<close>




section \<open>Properties of the colour functions\<close>

lemma getRiskColor_known:
  "getRiskColor (ArgStr (level_name l)) =
     Str (case l of Minimal \<Rightarrow> ''#10B981'' | Low \<Rightarrow> ''#84CC16'' | Moderate \<Rightarrow> ''#F59E0B''
          | High \<Rightarrow> ''#F97316'' | Critical \<Rightarrow> ''#EF4444'')"
  by (cases l) (simp_all add: getRiskColor_def get_property_def RISK_COLORS_def logical_or_def)

lemma getRiskColor_known_inj:
  assumes "getRiskColor (ArgStr (level_name a)) = getRiskColor (ArgStr (level_name b))"
  shows "a = b"
  using assms unfolding getRiskColor_known by (cases a; cases b) simp_all

lemma getRiskColor_absent:
  "getRiskColor ArgUndefined = getRiskColor (ArgStr ''minimal'')"
  "getRiskColor ArgNull = getRiskColor (ArgStr ''minimal'')"
  by (simp_all add: getRiskColor_def get_property_def RISK_COLORS_def logical_or_def
      object_prototype_keys_def)

lemma getRiskColor_unknown:
  assumes "map_of RISK_COLORS (to_property_key level) = None"
    and "to_property_key level \<notin> set object_prototype_keys"
  shows "getRiskColor level = getRiskColor (ArgStr ''minimal'')"
  using assms by (simp add: getRiskColor_def get_property_def logical_or_def)

text \<open>
  C5. The level \<open>constructor\<close> is none of the five known levels, and \<open>getRiskColor\<close> does
  not return the colour of the minimal level for it: the read of the table finds the
  inherited property of that name, which is truthy, so the fallback is not taken and the
  result is not a colour string at all.
\<close>

theorem getRiskColor_inherited_key:
  "(\<forall>l. level_name l \<noteq> ''constructor'')
   \<and> getRiskColor (ArgStr ''constructor'') = Inherited ''constructor''
   \<and> getRiskColor (ArgStr ''minimal'') = Str ''#10B981''
   \<and> getRiskColor (ArgStr ''constructor'') \<noteq> getRiskColor (ArgStr ''minimal'')"
proof -
  have "level_name l \<noteq> ''constructor''" for l
    by (cases l) simp_all
  moreover have "getRiskColor (ArgStr ''constructor'') = Inherited ''constructor''"
    by (simp add: getRiskColor_def get_property_def RISK_COLORS_def logical_or_def
        object_prototype_keys_def)
  moreover have "getRiskColor (ArgStr ''minimal'') = Str ''#10B981''"
    by (simp add: getRiskColor_def get_property_def RISK_COLORS_def logical_or_def)
  ultimately show ?thesis by simp
qed

lemma getDiseaseColor_covid:
  "getDiseaseColor ''covid'' = Str ''#64748B''"
  by (simp add: getDiseaseColor_def get_property_def DISEASE_COLORS_def logical_or_def)

lemma getDiseaseColor_unknown:
  assumes "map_of DISEASE_COLORS k = None" and "k \<notin> set object_prototype_keys"
  shows "getDiseaseColor k = getDiseaseColor ''covid''"
  using assms by (simp add: getDiseaseColor_covid) (simp add: getDiseaseColor_def get_property_def logical_or_def)

text \<open>
  C10. The disease key \<open>constructor\<close> is not in the table of disease colours, and
  \<open>getDiseaseColor\<close> does not return the default colour, which is the colour of covid, for
  it: the read of the table finds the inherited property of that name, which is truthy.
  A key in neither the table nor the prototype, such as \<open>zika\<close>, does get the colour of
  covid.
\<close>

theorem getDiseaseColor_inherited_key:
  "map_of DISEASE_COLORS ''constructor'' = None
   \<and> getDiseaseColor ''constructor'' = Inherited ''constructor''
   \<and> getDiseaseColor ''covid'' = Str ''#64748B''
   \<and> getDiseaseColor ''constructor'' \<noteq> getDiseaseColor ''covid''
   \<and> getDiseaseColor ''zika'' = getDiseaseColor ''covid''"
  by (simp add: getDiseaseColor_def get_property_def DISEASE_COLORS_def logical_or_def
      object_prototype_keys_def)

section \<open>Refresh cadences\<close>

text \<open>
  C6. The risk summary and the risk map queries poll every 300000 ms (5 minutes); the
  alert list queries poll every 60000 ms (60 seconds); the region risk, disease risk and
  single region queries have no polling interval and are enabled exactly when their
  region code or disease type is a non-empty string. The polled queries carry no
  \<open>enabled\<close> option, so they are always enabled.
\<close>

theorem refresh_cadences:
  "refetchInterval (useRiskSummary continent level) = Some 300000
   \<and> refetchInterval (useRiskMap level) = Some 300000
   \<and> refetchInterval (useAlerts params) = Some 60000
   \<and> refetchInterval (useActiveAlerts severity limit) = Some 60000
   \<and> refetchInterval (useRegionRisks code) = None
   \<and> refetchInterval (useDiseaseRisks disease riskLevel limit) = None
   \<and> refetchInterval (useRegion code) = None
   \<and> is_enabled (useRegionRisks code) = (code \<noteq> '''')
   \<and> is_enabled (useDiseaseRisks disease riskLevel limit) = (disease \<noteq> '''')
   \<and> is_enabled (useRegion code) = (code \<noteq> '''')
   \<and> is_enabled (useRiskSummary continent level)
   \<and> is_enabled (useRiskMap level)
   \<and> is_enabled (useAlerts params)
   \<and> is_enabled (useActiveAlerts severity limit)"
  by (simp add: useRiskSummary_def useRiskMap_def useAlerts_def useActiveAlerts_def
      useRegionRisks_def useDiseaseRisks_def useRegion_def is_enabled_def truthy_str_def)

section \<open>Invalidation after an alert mutation\<close>

lemma partialMatchKey_alerts:
  "partialMatchKey key [KStr ''alerts''] = in_alerts_family key"
  by (cases key rule: in_alerts_family.cases) auto

lemma invalidate_alerts_entry:
  "invalidateQueries [KStr ''alerts''] cache key =
     (if in_alerts_family key then map_option (\<lambda>e. e\<lparr>isInvalidated := True\<rparr>) (cache key)
      else cache key)"
  by (simp add: invalidateQueries_def partialMatchKey_alerts split: option.split)

lemma mutate_resolved_hooks:
  "mutate useAcknowledgeAlert (Resolved x) cache = invalidateQueries [KStr ''alerts''] cache"
  "mutate useResolveAlert (Resolved x) cache = invalidateQueries [KStr ''alerts''] cache"
  by (simp_all add: mutate_def run_callback_def useAcknowledgeAlert_def useResolveAlert_def)

lemma read_after_invalidate:
  "read_query (invalidateQueries [KStr ''alerts''] cache) key =
     (if in_alerts_family key then Fetch else read_query cache key)"
  by (simp add: read_query_def invalidate_alerts_entry split: option.split)

lemma hook_keys_in_alerts_family:
  "in_alerts_family (queryKey (useAlerts params))"
  "in_alerts_family (queryKey (useActiveAlerts severity limit))"
  "in_alerts_family (queryKey (useAlert alert_id))"
  by (simp_all add: useAlerts_def useActiveAlerts_def useAlert_def)

lemma hook_keys_outside_alerts_family:
  "\<not> in_alerts_family (queryKey (useRiskSummary continent level))"
  "\<not> in_alerts_family (queryKey (useRiskMap level))"
  "\<not> in_alerts_family (queryKey (useRegionRisks code))"
  "\<not> in_alerts_family (queryKey (useDiseaseRisks disease riskLevel limit))"
  "\<not> in_alerts_family (queryKey (useRegions params))"
  "\<not> in_alerts_family (queryKey (useRegion code))"
  "\<not> in_alerts_family (queryKey (useRegionChildren code))"
  by (simp_all add: useRiskSummary_def useRiskMap_def useRegionRisks_def useDiseaseRisks_def
      useRegions_def useRegion_def useRegionChildren_def)

text \<open>
  C2. After an acknowledge or a resolve mutation whose request was resolved, every cache
  entry whose key is in the alerts family is marked stale, whatever parameters follow the
  namespace, and the next read of any key of the family triggers a fetch; every key outside
  the family has the entry it had before, and a read of it gives what it gave before. The
  keys of the three alert queries are in the family for every argument; the keys of the
  risk and region queries are outside it for every argument.
\<close>

theorem alert_mutation_invalidates_family:
  "(in_alerts_family key \<longrightarrow>
      mutate useAcknowledgeAlert (Resolved alert) cache key
        = map_option (\<lambda>e. e\<lparr>isInvalidated := True\<rparr>) (cache key)
      \<and> mutate useResolveAlert (Resolved alert) cache key
        = map_option (\<lambda>e. e\<lparr>isInvalidated := True\<rparr>) (cache key)
      \<and> read_query (mutate useAcknowledgeAlert (Resolved alert) cache) key = Fetch
      \<and> read_query (mutate useResolveAlert (Resolved alert) cache) key = Fetch)
   \<and> (\<not> in_alerts_family key \<longrightarrow>
      mutate useAcknowledgeAlert (Resolved alert) cache key = cache key
      \<and> mutate useResolveAlert (Resolved alert) cache key = cache key
      \<and> read_query (mutate useAcknowledgeAlert (Resolved alert) cache) key = read_query cache key
      \<and> read_query (mutate useResolveAlert (Resolved alert) cache) key = read_query cache key)
   \<and> in_alerts_family (queryKey (useAlerts params))
   \<and> in_alerts_family (queryKey (useActiveAlerts severity limit))
   \<and> in_alerts_family (queryKey (useAlert alert_id))
   \<and> \<not> in_alerts_family (queryKey (useRiskSummary continent level))
   \<and> \<not> in_alerts_family (queryKey (useRiskMap level))
   \<and> \<not> in_alerts_family (queryKey (useRegionRisks code))
   \<and> \<not> in_alerts_family (queryKey (useDiseaseRisks disease riskLevel limit))
   \<and> \<not> in_alerts_family (queryKey (useRegions params))
   \<and> \<not> in_alerts_family (queryKey (useRegion code))
   \<and> \<not> in_alerts_family (queryKey (useRegionChildren code))"
  by (simp add: mutate_resolved_hooks read_after_invalidate invalidate_alerts_entry
      hook_keys_in_alerts_family hook_keys_outside_alerts_family)

theorem alert_mutation_invalidates_family_witness:
  "in_alerts_family (queryKey (useActiveAlerts (Some ''critical'') None))
   \<and> \<not> in_alerts_family (queryKey (useRiskMap None))
   \<and> read_query
        [queryKey (useActiveAlerts (Some ''critical'') None)
           \<mapsto> \<lparr>cached = ''alerts'', isInvalidated = False\<rparr>,
         queryKey (useRiskMap None) \<mapsto> \<lparr>cached = ''map'', isInvalidated = False\<rparr>]
        (queryKey (useActiveAlerts (Some ''critical'') None)) = Cached ''alerts''
   \<and> read_query
        (mutate useResolveAlert (Resolved ())
          [queryKey (useActiveAlerts (Some ''critical'') None)
             \<mapsto> \<lparr>cached = ''alerts'', isInvalidated = False\<rparr>,
           queryKey (useRiskMap None) \<mapsto> \<lparr>cached = ''map'', isInvalidated = False\<rparr>])
        (queryKey (useActiveAlerts (Some ''critical'') None)) = Fetch
   \<and> read_query
        (mutate useResolveAlert (Resolved ())
          [queryKey (useActiveAlerts (Some ''critical'') None)
             \<mapsto> \<lparr>cached = ''alerts'', isInvalidated = False\<rparr>,
           queryKey (useRiskMap None) \<mapsto> \<lparr>cached = ''map'', isInvalidated = False\<rparr>])
        (queryKey (useRiskMap None)) = Cached ''map''"
proof -
  let ?k1 = "queryKey (useActiveAlerts (Some ''critical'') None)"
  let ?k2 = "queryKey (useRiskMap None)"
  let ?c = "[?k1 \<mapsto> \<lparr>cached = ''alerts'', isInvalidated = False\<rparr>,
             ?k2 \<mapsto> \<lparr>cached = ''map'', isInvalidated = False\<rparr>]"
  have in1: "in_alerts_family ?k1"
    by (simp add: useActiveAlerts_def)
  have out2: "\<not> in_alerts_family ?k2"
    by (simp add: useRiskMap_def)
  have before: "read_query ?c ?k1 = Cached ''alerts''" "read_query ?c ?k2 = Cached ''map''"
    by (simp_all add: read_query_def useActiveAlerts_def useRiskMap_def)
  have after1: "read_query (mutate useResolveAlert (Resolved ()) ?c) ?k1 = Fetch"
    using alert_mutation_invalidates_family [where key = ?k1 and cache = ?c and alert = "()"] in1
    by blast
  have after2: "read_query (mutate useResolveAlert (Resolved ()) ?c) ?k2 = read_query ?c ?k2"
    using alert_mutation_invalidates_family [where key = ?k2 and cache = ?c and alert = "()"] out2
    by blast
  show ?thesis
    using in1 out2 before after1 after2 by simp
qed

text \<open>
  C7. When the request of an acknowledge or a resolve mutation is rejected, the cache is
  the cache it was before the mutation, at every key: nothing is invalidated, and every
  read gives what it gave before.
\<close>

theorem rejected_mutation_keeps_cache:
  "mutate useAcknowledgeAlert (Rejected err) cache = cache
   \<and> mutate useResolveAlert (Rejected err) cache = cache
   \<and> read_query (mutate useAcknowledgeAlert (Rejected err) cache) key = read_query cache key
   \<and> read_query (mutate useResolveAlert (Rejected err) cache) key = read_query cache key"
  by (simp add: mutate_def run_callback_def useAcknowledgeAlert_def useResolveAlert_def)

end
